theory Spec2Isabelle
  imports Complex_Main
begin

section \<open>Strings and errors\<close>

text \<open>
  A JavaScript string is a sequence of UTF-16 code units, and every string operation of
  the element works on code units. A code unit is a number below \<open>65536\<close>; the
  functions below are defined on lists of any numbers, the strings among them.
  \<open>str\<close> turns a literal into its code units.
\<close>

type_synonym codeunit = nat

type_synonym jsstring = "codeunit list"

definition str :: "string \<Rightarrow> jsstring" where
  "str s = map of_char s"

abbreviation colon :: codeunit where
  "colon \<equiv> 0x3A"

abbreviation comma :: codeunit where
  "comma \<equiv> 0x2C"

text \<open>The exception that the element can run into.\<close>

datatype error = TypeError

section \<open>Scene objects\<close>

text \<open>
  The viewer element of \<^verbatim>\<open>src/utils/urdf-viewer-element.js\<close> keeps a scene graph of
  engine objects and mutates them in place. A scene object is a record of the
  properties the element reads or writes; a subtree is a \<open>node\<close>. Numbers are JavaScript
  doubles in the source and reals here; the two values a double has beyond the reals and
  that the element can produce (\<open>Infinity\<close> and \<open>NaN\<close>) are constructors of \<open>jsnum\<close>.
\<close>

datatype jsnum = Num real | Infinity | NaN

datatype material = CollisionMaterial | LoaderMaterial nat

datatype raycastFn = MeshRaycast | EmptyRaycast

type_synonym vec3 = "real \<times> real \<times> real"

datatype box3 = EmptyBox | Box vec3 vec3

record object3d =
  isURDFVisual :: bool
  isURDFCollider :: bool
  isURDFJoint :: bool
  isMesh :: bool
  visible :: bool
  castShadow :: bool
  receiveShadow :: bool
  raycast :: raycastFn
  material :: material
  geometryBox :: box3
  hasDispose :: bool
  disposed :: bool
  ignoreLimits :: bool
  jointValue :: real
  effective :: real
  limitLower :: real
  limitUpper :: real

datatype node = Node object3d "node list"

text \<open>
  The imported robot: its root node and the table \<open>robot.joints\<close>, which names joint
  nodes of that same tree. An entry of the table is the path of child indices from the
  root to the joint. The table is an object of the importer's making; \<open>inherited\<close>
  lists the names that a property read finds on it although it has no entry of that
  name, because its prototype has one. For a plain object these are the names of
  \<open>Object.prototype\<close>; what they hold is neither falsy nor a joint.
\<close>

record urdfRobot =
  root :: node
  joints :: "jsstring \<rightharpoonup> nat list"
  inherited :: "jsstring list"

definition objectPrototype :: "jsstring list" where
  "objectPrototype =
     map str [''constructor'', ''__defineGetter__'', ''__defineSetter__'', ''hasOwnProperty'',
       ''__lookupGetter__'', ''__lookupSetter__'', ''isPrototypeOf'', ''propertyIsEnumerable'',
       ''toString'', ''valueOf'', ''__proto__'', ''toLocaleString'']"

text \<open>What the read \<open>robot.joints[jointName]\<close> yields.\<close>

datatype property = Undefined | Inherited | Joint "nat list"

definition joints_get :: "urdfRobot \<Rightarrow> jsstring \<Rightarrow> property" where
  "joints_get m jointName =
     (case joints m jointName of
        Some p \<Rightarrow> Joint p
      | None \<Rightarrow> if jointName \<in> set (inherited m) then Inherited else Undefined)"

subsection \<open>Traversal\<close>

text \<open>
  \<open>object.traverse(callback)\<close> calls the callback on the object and then on every
  descendant, parents first. Every callback of the element writes only properties of
  the object it is called on.
\<close>

fun traverse :: "(object3d \<Rightarrow> object3d) \<Rightarrow> node \<Rightarrow> node" where
  "traverse f (Node c cs) = Node (f c) (map (traverse f) cs)"

text \<open>The objects of a subtree, and the subtrees rooted at them, in traversal order.\<close>

fun objs :: "node \<Rightarrow> object3d list" where
  "objs (Node c cs) = c # concat (map objs cs)"

fun nodes :: "node \<Rightarrow> node list" where
  "nodes (Node c cs) = Node c cs # concat (map nodes cs)"

text \<open>
  Each object paired with the number of collider nodes on the path from the root of the
  traversal down to it, itself included, given \<open>k\<close> colliders above that root.
\<close>

fun colliderDepths :: "nat \<Rightarrow> node \<Rightarrow> (object3d \<times> nat) list" where
  "colliderDepths k (Node c cs) =
     (let k' = (if isURDFCollider c then Suc k else k)
      in (c, k') # concat (map (colliderDepths k') cs))"

fun lookup :: "nat list \<Rightarrow> node \<Rightarrow> object3d option" where
  "lookup [] (Node c cs) = Some c"
| "lookup (i # p) (Node c cs) = (if i < length cs then lookup p (cs ! i) else None)"

fun update :: "nat list \<Rightarrow> (object3d \<Rightarrow> object3d) \<Rightarrow> node \<Rightarrow> node" where
  "update [] f (Node c cs) = Node (f c) cs"
| "update (i # p) f (Node c cs) =
     (if i < length cs then Node c (cs[i := update p f (cs ! i)]) else Node c cs)"

subsection \<open>Bounding volumes of the rendering engine\<close>

text \<open>
  \<open>Box3\<close> of the engine: \<open>makeEmpty\<close> is \<open>EmptyBox\<close> (minimum \<open>+Infinity\<close>, maximum
  \<open>-Infinity\<close>), \<open>union\<close> is the componentwise hull, \<open>expandByObject\<close> adds the
  world-space box of the object's own geometry and of every descendant's,
  \<open>getCenter\<close> is the midpoint and the origin for an empty box, and
  \<open>getBoundingSphere\<close> has half the diagonal as radius and \<open>-1\<close> for an empty box.
\<close>

fun union_box :: "box3 \<Rightarrow> box3 \<Rightarrow> box3" where
  "union_box EmptyBox b = b"
| "union_box a EmptyBox = a"
| "union_box (Box (ax, ay, az) (bx, by, bz)) (Box (cx, cy, cz) (dx, dy, dz)) =
     Box (min ax cx, min ay cy, min az cz) (max bx dx, max by dy, max bz dz)"

fun expandByObject :: "box3 \<Rightarrow> node \<Rightarrow> box3" where
  "expandByObject b (Node c cs) =
     foldl (\<lambda>b' n. expandByObject b' n) (union_box b (geometryBox c)) cs"

fun getCenter :: "box3 \<Rightarrow> vec3" where
  "getCenter EmptyBox = (0, 0, 0)"
| "getCenter (Box (ax, ay, az) (bx, by, bz)) = ((ax + bx) / 2, (ay + by) / 2, (az + bz) / 2)"

fun min_y :: "box3 \<Rightarrow> jsnum" where
  "min_y EmptyBox = Infinity"
| "min_y (Box (ax, ay, az) (bx, by, bz)) = Num ay"

fun sphere_radius :: "box3 \<Rightarrow> real" where
  "sphere_radius EmptyBox = - 1"
| "sphere_radius (Box (ax, ay, az) (bx, by, bz)) =
     sqrt ((bx - ax)\<^sup>2 + (by - ay)\<^sup>2 + (bz - az)\<^sup>2) / 2"

fun minus_num :: "jsnum \<Rightarrow> real \<Rightarrow> jsnum" where
  "minus_num (Num x) e = Num (x - e)"
| "minus_num Infinity e = Infinity"
| "minus_num NaN e = NaN"

definition js_div :: "nat \<Rightarrow> nat \<Rightarrow> jsnum" where
  "js_div w h = (if h = 0 then (if w = 0 then NaN else Infinity) else Num (real w / real h))"

fun vec_sub :: "vec3 \<Rightarrow> vec3 \<Rightarrow> vec3" where
  "vec_sub (ax, ay, az) (bx, by, bz) = (ax - bx, ay - by, az - bz)"

fun vec_add :: "vec3 \<Rightarrow> vec3 \<Rightarrow> vec3" where
  "vec_add (ax, ay, az) (bx, by, bz) = (ax + bx, ay + by, az + bz)"

fun vec_y :: "vec3 \<Rightarrow> real" where
  "vec_y (ax, ay, az) = ay"

section \<open>Package specifications\<close>

text \<open>
  The string operations of the package parsing in \<open>_loadUrdf\<close>: \<open>includes\<close>,
  \<open>split\<close> on a one-character separator, \<open>join\<close>, and \<open>trim\<close>, which removes
  white space and line terminators at both ends: tab, line feed, vertical tab, form
  feed, carriage return, space, no-break space, the other space separators of Unicode,
  the line and paragraph separators and the byte order mark.
\<close>

definition includes_chr :: "codeunit \<Rightarrow> jsstring \<Rightarrow> bool" where
  "includes_chr c s = (c \<in> set s)"

fun split :: "codeunit \<Rightarrow> jsstring \<Rightarrow> jsstring list" where
  "split c [] = [[]]"
| "split c (x # xs) =
     (if x = c then [] # split c xs
      else (case split c xs of p # ps \<Rightarrow> (x # p) # ps | [] \<Rightarrow> [[x]]))"

fun join :: "jsstring \<Rightarrow> jsstring list \<Rightarrow> jsstring" where
  "join sep [] = []"
| "join sep [p] = p"
| "join sep (p # q # ps) = p @ sep @ join sep (q # ps)"

definition isWhiteSpace :: "codeunit \<Rightarrow> bool" where
  "isWhiteSpace c =
     (c \<in> set [0x09, 0x0A, 0x0B, 0x0C, 0x0D, 0x20, 0xA0, 0x1680, 0x2028, 0x2029, 0x202F,
               0x205F, 0x3000, 0xFEFF] \<or>
      (0x2000 \<le> c \<and> c \<le> 0x200A))"

definition trim :: "jsstring \<Rightarrow> jsstring" where
  "trim s = rev (dropWhile isWhiteSpace (rev (dropWhile isWhiteSpace s)))"

datatype packages = Path jsstring | Table "jsstring \<rightharpoonup> jsstring"

text \<open>
  \<open>map[pkgName] = pkgPath\<close> on an object that started as \<open>{}\<close>: the name
  \<open>__proto__\<close> reaches the setter of the prototype, which ignores a string, and every
  other name becomes a key.
\<close>

definition assign ::
  "(jsstring \<rightharpoonup> jsstring) \<Rightarrow> jsstring \<Rightarrow> jsstring \<Rightarrow> (jsstring \<rightharpoonup> jsstring)" where
  "assign m k v = (if k = str ''__proto__'' then m else m(k \<mapsto> v))"

text \<open>
  The body of the \<open>reduce\<close> over the comma-separated segments. \<open>split.shift()\<close> on an
  empty array is \<open>undefined\<close>, and \<open>undefined.trim()\<close> raises.
\<close>

fun reduce_packages ::
  "(jsstring \<rightharpoonup> jsstring) \<Rightarrow> jsstring list \<Rightarrow> error + (jsstring \<rightharpoonup> jsstring)" where
  "reduce_packages m [] = Inr m"
| "reduce_packages m (v # rest) =
     (case filter (\<lambda>x. x \<noteq> []) (split colon v) of
        [] \<Rightarrow> Inl TypeError
      | pkgName # sp \<Rightarrow>
          reduce_packages (assign m (trim pkgName) (trim (join [colon] sp))) rest)"

definition isPackageMap :: "jsstring \<Rightarrow> bool" where
  "isPackageMap pkg =
     (includes_chr colon pkg \<and>
      (case split colon pkg of
         _ # seg # _ \<Rightarrow> take 2 seg \<noteq> str ''//''
       | _ \<Rightarrow> False))"

definition resolvePackages :: "jsstring \<Rightarrow> error + packages" where
  "resolvePackages pkg =
     (if isPackageMap pkg
      then (case reduce_packages Map.empty (split comma pkg) of
              Inl e \<Rightarrow> Inl e
            | Inr m \<Rightarrow> Inr (Table m))
      else Inr (Path pkg))"








section \<open>The viewer element\<close>

subsection \<open>State\<close>

text \<open>
  Notifications sent with \<open>dispatchEvent\<close>, and the calls into the rendering engine
  that the element makes; \<open>log\<close> records them in order, together with the calls of
  \<open>recenter\<close>.
\<close>

datatype event = UrdfChange | UrdfProcessed | GeometryLoaded | AngleChange jsstring

datatype effect = Dispatch event | Render | ControlsUpdate | Recenter

text \<open>Callbacks handed to \<open>requestAnimationFrame\<close>.\<close>

datatype callback = RenderLoop | DeferredLoad

text \<open>
  One call of \<open>loader.load\<close> that has not been forgotten: the \<open>requestId\<close> its closures
  captured, what the loader was given, and the closure variable \<open>robot\<close> shared by the
  load callback and \<open>manager.onLoad\<close>.
\<close>

record request =
  captured :: nat
  req_packages :: packages
  req_urdf :: jsstring
  local_robot :: "nat option"

text \<open>
  The element. Imported robots live in \<open>objects\<close> and are referred to by their index
  there, so that \<open>this.robot\<close>, the children of \<open>this.world\<close> and the closure variables
  of pending imports can name the same object. The \<open>attr_\<close> fields are the HTML
  attributes behind the getters \<open>package\<close>, \<open>urdf\<close>, \<open>displayShadow\<close>, \<open>ignoreLimits\<close>
  and \<open>showCollision\<close>; \<open>clientWidth\<close>, \<open>clientHeight\<close>, \<open>parentNode\<close> and
  \<open>controlsMoved\<close> are set by the host. \<open>controlsMoved\<close> says that the camera
  controller has a change to report at its next \<open>update\<close>: the camera or the target of
  the controller has been moved since its last one, by the application or by the
  framing of the element. \<open>shadowCam\<close> holds left, right, top and bottom of the light's
  shadow camera.
\<close>

record viewer =
  requestId :: nat
  dirty :: bool
  loadScheduled :: bool
  prevload :: "jsstring option"
  robot :: "nat option"
  objects :: "urdfRobot list"
  world :: "nat list"
  requests :: "request list"
  raf :: "callback list"
  log :: "effect list"
  attr_package :: jsstring
  attr_urdf :: jsstring
  attr_displayShadow :: bool
  attr_ignoreLimits :: bool
  attr_showCollision :: bool
  noAutoRecenter :: bool
  autoRedraw :: bool
  plane_y :: jsnum
  target_y :: real
  light_castShadow :: bool
  light_position :: vec3
  light_target :: vec3
  shadowCam :: "real \<times> real \<times> real \<times> real"
  rendererSize :: "nat \<times> nat"
  pixelRatio :: real
  aspect :: jsnum
  clientWidth :: nat
  clientHeight :: nat
  devicePixelRatio :: real
  parentNode :: bool
  controlsMoved :: bool

text \<open>
  The state the constructor leaves: the fields it initialises, the engine's defaults
  (a 300 by 150 canvas, a shadow camera of half-extent 5), and the first run of
  \<open>renderLoop\<close>, which finds no parent and only schedules itself.
\<close>

definition constructed :: viewer where
  "constructed =
     \<lparr> requestId = 0, dirty = False, loadScheduled = False, prevload = None,
       robot = None, objects = [], world = [], requests = [], raf = [RenderLoop],
       log = [], attr_package = [], attr_urdf = [], attr_displayShadow = False,
       attr_ignoreLimits = False, attr_showCollision = False,
       noAutoRecenter = False, autoRedraw = False,
       plane_y = Num (- 1 / 2), target_y = 0, light_castShadow = True,
       light_position = (4, 10, 1), light_target = (0, 0, 0),
       shadowCam = (- 5, 5, 5, - 5), rendererSize = (300, 150), pixelRatio = 1,
       aspect = Num 1, clientWidth = 0, clientHeight = 0, devicePixelRatio = 1,
       parentNode = False, controlsMoved = False \<rparr>"

text \<open>Writing through a reference to an imported robot.\<close>

definition modify :: "nat \<Rightarrow> (node \<Rightarrow> node) \<Rightarrow> viewer \<Rightarrow> viewer" where
  "modify a f s =
     s\<lparr>objects := (objects s)[a := (objects s ! a)\<lparr>root := f (root (objects s ! a))\<rparr>]\<rparr>"

subsection \<open>Framing\<close>

definition redraw :: "viewer \<Rightarrow> viewer" where
  "redraw s = s\<lparr>dirty := True\<rparr>"

definition epsilon :: real where
  "epsilon = 1 / 1000"

definition visualBox :: "node \<Rightarrow> box3" where
  "visualBox r =
     foldl (\<lambda>bbox c. case c of Node o3 cs \<Rightarrow>
              if isURDFVisual o3 then expandByObject bbox c else bbox)
       EmptyBox (nodes r)"

text \<open>
  \<open>_updateEnvironment\<close>. The assignment to \<open>this.controls.target.y\<close> moves the
  target of the camera controller; when the value is a new one, the controller finds at
  its next \<open>update\<close> that the camera has to turn towards the new target, and has a
  change to report. The controller of the engine overlooks a turn below its tolerance,
  which is of the order of \<open>1e-6\<close>; here every move of the target counts.
\<close>

definition updateEnvironment :: "viewer \<Rightarrow> viewer" where
  "updateEnvironment s =
     (case robot s of
        None \<Rightarrow> s
      | Some a \<Rightarrow>
          let bbox = visualBox (root (objects s ! a));
              center = getCenter bbox;
              s1 = s\<lparr>target_y := vec_y center,
                     controlsMoved := (controlsMoved s \<or> vec_y center \<noteq> target_y s),
                     plane_y := minus_num (min_y bbox) epsilon,
                     light_castShadow := attr_displayShadow s\<rparr>
          in if attr_displayShadow s
             then let minmax = sphere_radius bbox;
                      offset = vec_sub (light_position s1) (light_target s1)
                  in s1\<lparr>shadowCam := (- minmax, minmax, minmax, - minmax),
                        light_target := center,
                        light_position := vec_add center offset\<rparr>
             else s1)"

text \<open>Whether \<open>_updateEnvironment\<close> would move the target of the camera controller.\<close>

definition targetMoves :: "viewer \<Rightarrow> bool" where
  "targetMoves s =
     (case robot s of
        None \<Rightarrow> False
      | Some a \<Rightarrow> vec_y (getCenter (visualBox (root (objects s ! a)))) \<noteq> target_y s)"

definition recenter :: "viewer \<Rightarrow> viewer" where
  "recenter s = redraw ((updateEnvironment s)\<lparr>log := log s @ [Recenter]\<rparr>)"

subsection \<open>Joints\<close>

text \<open>
  Modelled from the spec: the joint node's own \<open>setJointValue\<close>, which is code of
  \<^verbatim>\<open>./URDFLoader.js\<close> and not among the sources. The specification describes it as
  the joint's value-setting policy. A joint carries its current value, the value last
  requested (\<open>jointValue\<close>), and the value in force (\<open>effective\<close>): the requested value,
  clamped to the joint's limits unless the joint ignores its limits. Setting a value
  stores the request, puts the policy's result in force and reports whether the value
  in force changed; re-applying the current value under another policy can so move the
  value in force between the clamped and the requested value. A call without a value
  changes nothing.
\<close>

definition joint_setJointValue :: "real list \<Rightarrow> object3d \<Rightarrow> object3d \<times> bool" where
  "joint_setJointValue vals j =
     (case vals of
        [] \<Rightarrow> (j, False)
      | v # _ \<Rightarrow>
          let e = (if ignoreLimits j then v else max (limitLower j) (min (limitUpper j) v))
          in (j\<lparr>jointValue := v, effective := e\<rparr>, e \<noteq> effective j))"

text \<open>
  \<open>setJointValue\<close> of the element. The guard \<open>!this.robot.joints[jointName]\<close> lets an
  inherited name pass, and the call of \<open>setJointValue\<close> on what the name holds raises.
\<close>

definition setJointValue :: "jsstring \<Rightarrow> real list \<Rightarrow> viewer \<Rightarrow> error + viewer" where
  "setJointValue jointName vals s =
     (case robot s of
        None \<Rightarrow> Inr s
      | Some a \<Rightarrow>
          (case joints_get (objects s ! a) jointName of
             Undefined \<Rightarrow> Inr s
           | Inherited \<Rightarrow> Inl TypeError
           | Joint p \<Rightarrow>
               (case lookup p (root (objects s ! a)) of
                  None \<Rightarrow> Inr s
                | Some j \<Rightarrow>
                    let s1 = modify a (update p (\<lambda>c. fst (joint_setJointValue vals c))) s
                    in if snd (joint_setJointValue vals j)
                       then Inr ((redraw s1)\<lparr>log := log s1 @ [Dispatch (AngleChange jointName)]\<rparr>)
                       else Inr s1)))"

definition reapplyJoint :: "bool \<Rightarrow> object3d \<Rightarrow> object3d" where
  "reapplyJoint ignore c =
     (if isURDFJoint c
      then fst (joint_setJointValue [jointValue c] (c\<lparr>ignoreLimits := ignore\<rparr>))
      else c)"

definition setIgnoreLimits :: "bool \<Rightarrow> bool \<Rightarrow> viewer \<Rightarrow> viewer" where
  "setIgnoreLimits ignore noRecenter s =
     (case robot s of
        None \<Rightarrow> s
      | Some a \<Rightarrow>
          let s1 = modify a (traverse (reapplyJoint ignore)) s
          in if \<not> noRecenter then recenter s1 else s1)"

subsection \<open>Collision geometry\<close>

definition showCollider :: "bool \<Rightarrow> object3d \<Rightarrow> object3d" where
  "showCollider showCollision c = (if isURDFCollider c then c\<lparr>visible := showCollision\<rparr> else c)"

definition collisionMesh :: "material \<Rightarrow> object3d \<Rightarrow> object3d" where
  "collisionMesh collisionMaterial c =
     (if isMesh c
      then c\<lparr>raycast := EmptyRaycast, material := collisionMaterial, castShadow := False\<rparr>
      else c)"

text \<open>
  \<open>colliders.forEach(coll => coll.traverse(f))\<close>, where \<open>colliders\<close> are the collider
  nodes of the tree: the callback reaches an object once for every collider on the path
  from the root down to it, the object itself included.
\<close>

fun forEachCollider :: "(object3d \<Rightarrow> object3d) \<Rightarrow> nat \<Rightarrow> node \<Rightarrow> node" where
  "forEachCollider f k (Node c cs) =
     (let k' = (if isURDFCollider c then Suc k else k)
      in Node ((f ^^ k') c) (map (forEachCollider f k') cs))"

definition updateCollisionVisibility :: "viewer \<Rightarrow> viewer" where
  "updateCollisionVisibility s =
     (case robot s of
        None \<Rightarrow> s
      | Some a \<Rightarrow>
          modify a (forEachCollider (collisionMesh CollisionMaterial) 0)
            (modify a (traverse (showCollider (attr_showCollision s))) s))"

text \<open>
  \<open>applyCollisionVisibility(flag)\<close> of the specification: the flag is the attribute
  \<open>show-collision\<close>, and the update reads it. \<open>applyIgnoreLimits(flag)\<close> of the
  specification is \<open>setIgnoreLimits flag\<close>.
\<close>

definition applyCollisionVisibility :: "bool \<Rightarrow> viewer \<Rightarrow> viewer" where
  "applyCollisionVisibility flag s = updateCollisionVisibility (s\<lparr>attr_showCollision := flag\<rparr>)"

text \<open>What the update leaves on a mesh of the collision geometry.\<close>

definition collisionStyled :: "object3d \<Rightarrow> bool" where
  "collisionStyled c =
     (raycast c = EmptyRaycast \<and> material c = CollisionMaterial \<and> castShadow c = False)"

subsection \<open>Loading\<close>

definition dispose :: "object3d \<Rightarrow> object3d" where
  "dispose c = (if hasDispose c then c\<lparr>disposed := True\<rparr> else c)"

text \<open>
  \<open>_scheduleLoad\<close>. The key of a load is the template string of package and locator.
  A mounted robot is a child of the world node, so \<open>this.robot.parent.remove\<close> takes
  it from the world's children.
\<close>

definition loadKey :: "viewer \<Rightarrow> jsstring" where
  "loadKey s = attr_package s @ str ''|'' @ attr_urdf s"

definition scheduleLoad :: "viewer \<Rightarrow> viewer" where
  "scheduleLoad s =
     (if prevload s = Some (loadKey s) then s
      else let s1 = s\<lparr>prevload := Some (loadKey s)\<rparr>
           in if loadScheduled s1 then s1
              else let s2 = s1\<lparr>loadScheduled := True\<rparr>;
                       s3 = (case robot s2 of
                               None \<Rightarrow> s2
                             | Some a \<Rightarrow>
                                 (modify a (traverse dispose) s2)
                                   \<lparr>world := removeAll a (world s2), robot := None\<rparr>)
                   in s3\<lparr>raf := raf s3 @ [DeferredLoad]\<rparr>)"

text \<open>
  \<open>_loadUrdf\<close> up to the call of \<open>loader.load\<close>. The function is \<open>async\<close>: when the
  package parsing raises, the promise is rejected and the caller goes on.
\<close>

definition loadUrdf :: "jsstring \<Rightarrow> jsstring \<Rightarrow> viewer \<Rightarrow> viewer" where
  "loadUrdf pkg urdf s =
     (let s1 = s\<lparr>log := log s @ [Dispatch UrdfChange]\<rparr>
      in if urdf \<noteq> []
         then let s2 = s1\<lparr>requestId := Suc (requestId s1)\<rparr>
              in (case resolvePackages pkg of
                    Inl e \<Rightarrow> s2
                  | Inr p \<Rightarrow>
                      s2\<lparr>requests := requests s2 @
                           [\<lparr>captured = requestId s2, req_packages = p, req_urdf = urdf,
                             local_robot = None\<rparr>]\<rparr>)
         else s1)"

text \<open>
  \<open>updateMaterials\<close>: \<open>urdf\<close> is the locator string, so \<open>urdf.materials\<close> is
  \<open>undefined\<close> and the lookup \<open>urdf.materials[materialName]\<close> raises at the first
  mesh the traversal meets, after that mesh's two shadow flags are set. The result is
  the tree as the traversal left it and whether it raised.
\<close>

fun updateMaterials :: "node \<Rightarrow> node \<times> bool"
  and updateMaterials_children :: "node list \<Rightarrow> node list \<times> bool" where
  "updateMaterials (Node c cs) =
     (if isMesh c then (Node (c\<lparr>castShadow := True, receiveShadow := True\<rparr>) cs, True)
      else (case updateMaterials_children cs of (cs', raised) \<Rightarrow> (Node c cs', raised)))"
| "updateMaterials_children [] = ([], False)"
| "updateMaterials_children (n # ns) =
     (case updateMaterials n of
        (n', True) \<Rightarrow> (n' # ns, True)
      | (n', False) \<Rightarrow>
          (case updateMaterials_children ns of (ns', raised) \<Rightarrow> (n' # ns', raised)))"

text \<open>\<open>this.world.add(robot)\<close>: the engine takes the object from its parent first.\<close>

definition world_add :: "nat \<Rightarrow> viewer \<Rightarrow> viewer" where
  "world_add a s = s\<lparr>world := removeAll a (world s) @ [a]\<rparr>"

text \<open>The statements that both completion callbacks share after the materials.\<close>

definition finishMount :: "viewer \<Rightarrow> viewer" where
  "finishMount s =
     (let s1 = updateCollisionVisibility (setIgnoreLimits (attr_ignoreLimits s) False s);
          s2 = s1\<lparr>log := log s1 @ [Dispatch UrdfProcessed, Dispatch GeometryLoaded]\<rparr>
      in recenter s2)"

text \<open>
  The callback given to \<open>loader.load\<close>, run for the pending import \<open>k\<close> when the
  loader has built the model \<open>m\<close>.
\<close>

definition loadCallback :: "nat \<Rightarrow> urdfRobot \<Rightarrow> viewer \<Rightarrow> viewer" where
  "loadCallback k m s =
     (if k < length (requests s)
      then let a = length (objects s);
               s1 = s\<lparr>objects := objects s @ [m],
                      requests := (requests s)[k := (requests s ! k)\<lparr>local_robot := Some a\<rparr>]\<rparr>;
               s2 = modify a (\<lambda>r. fst (updateMaterials r)) s1
           in if snd (updateMaterials (root m)) then s2
              else finishMount (world_add a (s2\<lparr>robot := Some a\<rparr>))
      else s)"

text \<open>
  \<open>manager.onLoad\<close> of the pending import \<open>k\<close>. While the closure variable \<open>robot\<close> is
  still \<open>null\<close>, \<open>robot.traverse\<close> raises.
\<close>

definition managerOnLoad :: "nat \<Rightarrow> viewer \<Rightarrow> viewer" where
  "managerOnLoad k s =
     (if k < length (requests s)
      then (if requestId s \<noteq> captured (requests s ! k)
            then (case local_robot (requests s ! k) of
                    None \<Rightarrow> s
                  | Some a \<Rightarrow> modify a (traverse dispose) s)
            else (case local_robot (requests s ! k) of
                    None \<Rightarrow> s\<lparr>robot := None\<rparr>
                  | Some a \<Rightarrow>
                      let s1 = world_add a (s\<lparr>robot := Some a\<rparr>);
                          s2 = modify a (\<lambda>r. fst (updateMaterials r)) s1
                      in if snd (updateMaterials (root (objects s1 ! a))) then s2
                         else finishMount s2))
      else s)"

subsection \<open>Attributes\<close>

text \<open>
  \<open>attributeChangedCallback\<close> for the attributes whose effects are modelled; \<open>up\<close> and
  \<open>ambient-color\<close> turn the world node and tint a light, which no field here records.
\<close>

datatype attribute = Package | Urdf | DisplayShadow | IgnoreLimits | ShowCollision

definition attributeChangedCallback :: "attribute \<Rightarrow> viewer \<Rightarrow> viewer" where
  "attributeChangedCallback attr s =
     (let s1 = (case attr of
                  Package \<Rightarrow> scheduleLoad s
                | Urdf \<Rightarrow> scheduleLoad s
                | IgnoreLimits \<Rightarrow> setIgnoreLimits (attr_ignoreLimits s) True s
                | _ \<Rightarrow> s);
          s2 = updateCollisionVisibility s1
      in if \<not> noAutoRecenter s2 then recenter s2 else s2)"

text \<open>The setters \<open>package\<close> and \<open>urdf\<close>: \<open>setAttribute\<close>, which runs the callback.\<close>

datatype change = SetPackage jsstring | SetUrdf jsstring

fun setAttribute :: "change \<Rightarrow> viewer \<Rightarrow> viewer" where
  "setAttribute (SetPackage v) s = attributeChangedCallback Package (s\<lparr>attr_package := v\<rparr>)"
| "setAttribute (SetUrdf v) s = attributeChangedCallback Urdf (s\<lparr>attr_urdf := v\<rparr>)"

text \<open>Several attribute changes, one after the other.\<close>

fun setAttributes :: "change list \<Rightarrow> viewer \<Rightarrow> viewer" where
  "setAttributes [] s = s"
| "setAttributes (c # cs) s = setAttributes cs (setAttribute c s)"

subsection \<open>The render loop\<close>

definition updateSize :: "viewer \<Rightarrow> viewer" where
  "updateSize s =
     (let w = clientWidth s;
          h = clientHeight s;
          s1 = (if fst (rendererSize s) \<noteq> w \<or> snd (rendererSize s) \<noteq> h then recenter s else s)
      in s1\<lparr>pixelRatio := devicePixelRatio s, rendererSize := (w, h), aspect := js_div w h\<rparr>)"

text \<open>The conditional drawing of one tick.\<close>

definition draw :: "viewer \<Rightarrow> viewer" where
  "draw s =
     (if dirty s \<or> autoRedraw s
      then let s1 = (if \<not> noAutoRecenter s then updateEnvironment s else s)
           in s1\<lparr>log := log s1 @ [Render], dirty := False\<rparr>
      else s)"

text \<open>
  \<open>this.controls.update()\<close>. The controller sends \<open>change\<close> when it has a change to
  report, and the element listens to it with \<open>recenter\<close>.
\<close>

definition controls_update :: "viewer \<Rightarrow> viewer" where
  "controls_update s =
     (let s1 = s\<lparr>log := log s @ [ControlsUpdate]\<rparr>
      in if controlsMoved s1 then recenter (s1\<lparr>controlsMoved := False\<rparr>) else s1)"

definition renderLoop :: "viewer \<Rightarrow> viewer" where
  "renderLoop s =
     (let s1 = (if parentNode s then controls_update (draw (updateSize s)) else s)
      in s1\<lparr>raf := raf s1 @ [RenderLoop]\<rparr>)"

text \<open>One animation frame: the callbacks requested before it run in order.\<close>

fun run_callback :: "viewer \<Rightarrow> callback \<Rightarrow> viewer" where
  "run_callback s RenderLoop = renderLoop s"
| "run_callback s DeferredLoad = (loadUrdf (attr_package s) (attr_urdf s) s)\<lparr>loadScheduled := False\<rparr>"

definition frame :: "viewer \<Rightarrow> viewer" where
  "frame s = foldl run_callback (s\<lparr>raf := []\<rparr>) (raf s)"

section \<open>Sample scenes\<close>

text \<open>A plain scene object, and small robots built from it.\<close>

definition object3D :: object3d where
  "object3D =
     \<lparr> isURDFVisual = False, isURDFCollider = False, isURDFJoint = False, isMesh = False,
       visible = True, castShadow = False, receiveShadow = False, raycast = MeshRaycast,
       material = LoaderMaterial 0, geometryBox = EmptyBox, hasDispose = False,
       disposed = False, ignoreLimits = False, jointValue = 0, effective = 0,
       limitLower = 0, limitUpper = 0 \<rparr>"

text \<open>A link with one visual whose mesh fills the box from \<open>(-1, 0, -1)\<close> to \<open>(1, 2, 1)\<close>.\<close>

definition boxRobot :: urdfRobot where
  "boxRobot =
     \<lparr> root = Node object3D
         [Node (object3D\<lparr>isURDFVisual := True\<rparr>)
            [Node (object3D\<lparr>isMesh := True, geometryBox := Box (- 1, 0, - 1) (1, 2, 1)\<rparr>) []]],
       joints = Map.empty, inherited = objectPrototype \<rparr>"

text \<open>
  A link with a visual and its mesh, a collider and its mesh, and the joint \<open>elbow\<close>
  (at \<open>0.5\<close>, limits \<open>-1\<close> and \<open>1\<close>) that carries a second link with the joint
  \<open>wrist\<close>, whose requested value \<open>1.5\<close> is clamped to \<open>1\<close>. In traversal order the
  collider is object 3, its mesh object 4, \<open>elbow\<close> object 5 and \<open>wrist\<close> object 7.
\<close>

definition armRobot :: urdfRobot where
  "armRobot =
     \<lparr> root = Node object3D
         [Node (object3D\<lparr>isURDFVisual := True\<rparr>)
            [Node (object3D\<lparr>isMesh := True, castShadow := True,
                     geometryBox := Box (- 1, 0, - 1) (1, 2, 1)\<rparr>) []],
          Node (object3D\<lparr>isURDFCollider := True\<rparr>)
            [Node (object3D\<lparr>isMesh := True, castShadow := True, material := LoaderMaterial 1,
                     geometryBox := Box (- 2, - 1, - 2) (2, 3, 2)\<rparr>) []],
          Node (object3D\<lparr>isURDFJoint := True, jointValue := 1 / 2, effective := 1 / 2,
                  limitLower := - 1, limitUpper := 1\<rparr>)
            [Node object3D
               [Node (object3D\<lparr>isURDFJoint := True, jointValue := 3 / 2, effective := 1,
                        limitLower := - 1, limitUpper := 1\<rparr>) []]]],
       joints = [str ''elbow'' \<mapsto> [2], str ''wrist'' \<mapsto> [2, 0, 0]],
       inherited = objectPrototype \<rparr>"

text \<open>
  A robot as the loader hands it over while its mesh files are still being fetched: a
  link, a joint, a second link and a visual that has no mesh yet.
\<close>

definition jointRobot :: urdfRobot where
  "jointRobot =
     \<lparr> root = Node object3D
         [Node (object3D\<lparr>isURDFJoint := True, jointValue := 1 / 2, effective := 1 / 2,
                  limitLower := - 1, limitUpper := 1\<rparr>)
            [Node object3D [Node (object3D\<lparr>isURDFVisual := True\<rparr>) []]]],
       joints = [str ''elbow'' \<mapsto> [0]], inherited = objectPrototype \<rparr>"

text \<open>
  An element with the robot \<open>m\<close> mounted, the same after its collision geometry has
  been switched on, and elements attached to an 800 by 600 container, without a robot
  and with one.
\<close>

definition mounted :: "urdfRobot \<Rightarrow> viewer" where
  "mounted m = constructed\<lparr>robot := Some 0, objects := [m], world := [0]\<rparr>"

definition showing :: viewer where
  "showing = applyCollisionVisibility True (mounted armRobot)"

definition attached :: viewer where
  "attached = constructed\<lparr>parentNode := True, clientWidth := 800, clientHeight := 600\<rparr>"

definition attachedBox :: viewer where
  "attachedBox =
     (mounted boxRobot)\<lparr>parentNode := True, clientWidth := 800, clientHeight := 600\<rparr>"

text \<open>
  A session: \<open>urdf\<close> is set to \<open>a.urdf\<close> and a frame passes (\<open>requested_a\<close>: the
  import of \<open>a.urdf\<close> is pending). Then \<open>urdf\<close> is set to \<open>b.urdf\<close> (\<open>scheduled_b\<close>)
  and either a frame passes too (\<open>requested_b\<close>: both imports are pending), or the
  import of \<open>a.urdf\<close> completes before the next frame (\<open>pending_b\<close>).
\<close>

definition requested_a :: viewer where
  "requested_a = frame (setAttribute (SetUrdf (str ''a.urdf'')) constructed)"

definition scheduled_b :: viewer where
  "scheduled_b = setAttribute (SetUrdf (str ''b.urdf'')) requested_a"

definition requested_b :: viewer where
  "requested_b = frame scheduled_b"

definition pending_b :: viewer where
  "pending_b = loadCallback 0 jointRobot scheduled_b"

text \<open>Three attribute changes in a row on a new element, with no frame in between.\<close>

definition burst :: viewer where
  "burst = setAttributes [SetPackage (str ''pkg''), SetUrdf (str ''a.urdf''), SetUrdf (str ''b.urdf'')] constructed"

section \<open>Theorems\<close>

subsection \<open>Package specifications\<close>
















subsection \<open>Framing\<close>

lemma updateEnvironment_no_robot: "robot s = None \<Longrightarrow> updateEnvironment s = s"
  by (simp add: updateEnvironment_def)

text \<open>
  C7 (as amended). When no model is mounted, \<open>recenter\<close> leaves the ground plane, the
  camera target, the directional light and every other part of the state as they are,
  except that it marks the scene dirty (and the call is recorded in the log).
\<close>

theorem recenter_no_model:
  "robot s = None \<Longrightarrow> recenter s = s\<lparr>dirty := True, log := log s @ [Recenter]\<rparr>"
  by (simp add: recenter_def redraw_def updateEnvironment_no_robot)

theorem recenter_no_model_witness:
  "robot constructed = None \<and>
   recenter constructed = constructed\<lparr>dirty := True, log := log constructed @ [Recenter]\<rparr>"
  using recenter_no_model [of constructed] by (simp add: constructed_def)

theorem recenter_no_model_counterexample:
  "robot constructed = None \<and> dirty (recenter constructed) \<noteq> dirty constructed"
  by (simp add: recenter_def redraw_def updateEnvironment_def constructed_def)

lemma recenter_plane_target:
  "robot s = Some a \<Longrightarrow>
     plane_y (recenter s) = minus_num (min_y (visualBox (root (objects s ! a)))) epsilon \<and>
     target_y (recenter s) = vec_y (getCenter (visualBox (root (objects s ! a))))"
  by (simp add: recenter_def redraw_def updateEnvironment_def Let_def)

text \<open>
  C3 (as amended). For every mounted model, \<open>recenter\<close> sets the height of the ground
  plane to the least y of the bounding box of the visual nodes minus epsilon, and the
  height of the camera target to the y of the centre of that box. For the box from
  \<open>(-1, 0, -1)\<close> to \<open>(1, 2, 1)\<close> the least y is \<open>0\<close>: the plane goes to \<open>0 - epsilon\<close>
  and the target to \<open>1\<close>.
\<close>

theorem recenter_framing:
  "robot s = Some a \<Longrightarrow>
     plane_y (recenter s) = minus_num (min_y (visualBox (root (objects s ! a)))) epsilon \<and>
     target_y (recenter s) = vec_y (getCenter (visualBox (root (objects s ! a)))) \<and>
     (visualBox (root (objects s ! a)) = Box (- 1, 0, - 1) (1, 2, 1) \<longrightarrow>
        plane_y (recenter s) = Num (0 - epsilon) \<and> target_y (recenter s) = 1)"
  using recenter_plane_target [of s a] by auto

lemma visualBox_boxRobot: "visualBox (root boxRobot) = Box (- 1, 0, - 1) (1, 2, 1)"
  by (simp add: visualBox_def boxRobot_def object3D_def)

theorem recenter_framing_witness:
  "robot (mounted boxRobot) = Some 0 \<and>
   visualBox (root (objects (mounted boxRobot) ! 0)) = Box (- 1, 0, - 1) (1, 2, 1) \<and>
   plane_y (recenter (mounted boxRobot)) = Num (- (1 / 1000)) \<and>
   target_y (recenter (mounted boxRobot)) = 1"
proof -
  have r: "robot (mounted boxRobot) = Some 0"
    by (simp add: mounted_def)
  have b: "visualBox (root (objects (mounted boxRobot) ! 0)) = Box (- 1, 0, - 1) (1, 2, 1)"
    by (simp add: mounted_def visualBox_boxRobot)
  show ?thesis
    using recenter_framing [OF r] r b by (simp add: epsilon_def)
qed

theorem recenter_framing_counterexample:
  "robot (mounted boxRobot) = Some 0 \<and>
   visualBox (root (objects (mounted boxRobot) ! 0)) = Box (- 1, 0, - 1) (1, 2, 1) \<and>
   plane_y (recenter (mounted boxRobot)) \<noteq> Num (- 1 - epsilon)"
proof -
  have r: "robot (mounted boxRobot) = Some 0"
    by (simp add: mounted_def)
  have b: "visualBox (root (objects (mounted boxRobot) ! 0)) = Box (- 1, 0, - 1) (1, 2, 1)"
    by (simp add: mounted_def visualBox_boxRobot)
  have "plane_y (recenter (mounted boxRobot)) = Num (0 - epsilon)"
    using recenter_plane_target [OF r] b by simp
  with r b show ?thesis by (simp add: epsilon_def)
qed

subsection \<open>Traversals and collision geometry\<close>


lemma length_colliderDepths: "map fst (colliderDepths k n) = objs n"
  by (induction n arbitrary: k) (simp add: Let_def map_concat o_def cong: map_cong)

lemma objs_forEachCollider:
  "objs (forEachCollider f k n) = map (\<lambda>(c, d). (f ^^ d) c) (colliderDepths k n)"
  by (induction n arbitrary: k) (simp add: Let_def map_concat o_def cong: map_cong)

lemma colliderDepths_traverse:
  "(\<And>c. isURDFCollider (g c) = isURDFCollider c) \<Longrightarrow>
     colliderDepths k (traverse g n) = map (\<lambda>(c, d). (g c, d)) (colliderDepths k n)"
  by (induction n arbitrary: k) (simp add: Let_def map_concat o_def cong: map_cong)

lemma funpow_collisionMesh:
  "(collisionMesh m ^^ d) c = (if 0 < d then collisionMesh m c else c)"
  by (induction d) (auto simp: collisionMesh_def)

lemma length_objs_colliderDepths: "length (colliderDepths k n) = length (objs n)"
  using length_colliderDepths [of k n] by (metis length_map)

lemma colliderDepths_forEachCollider:
  "(\<And>c. isURDFCollider (f c) = isURDFCollider c) \<Longrightarrow>
     colliderDepths k (forEachCollider f k n) =
       map (\<lambda>(c, d). ((f ^^ d) c, d)) (colliderDepths k n)"
proof (induction n arbitrary: k)
  case (Node c cs)
  have pow: "isURDFCollider ((f ^^ d) x) = isURDFCollider x" for d x
    by (induction d) (simp_all add: Node.prems)
  show ?case
    using Node.IH Node.prems
    by (simp add: Let_def map_concat o_def pow cong: map_cong)
qed

lemma applyCollisionVisibility_keeps:
  "robot (applyCollisionVisibility flag s) = robot s"
  "length (objects (applyCollisionVisibility flag s)) = length (objects s)"
  by (simp_all add: applyCollisionVisibility_def updateCollisionVisibility_def modify_def
      split: option.splits)

lemma objs_applyCollisionVisibility:
  assumes "robot s = Some a" and "a < length (objects s)"
  shows "objs (root (objects (applyCollisionVisibility flag s) ! a)) =
           map (\<lambda>(c, d). (collisionMesh CollisionMaterial ^^ d) (showCollider flag c))
             (colliderDepths 0 (root (objects s ! a)))"
  using assms
  by (simp add: applyCollisionVisibility_def updateCollisionVisibility_def modify_def
      objs_forEachCollider colliderDepths_traverse showCollider_def case_prod_unfold o_def)

lemma colliderDepths_applyCollisionVisibility:
  assumes "robot s = Some a" and "a < length (objects s)"
  shows "colliderDepths 0 (root (objects (applyCollisionVisibility flag s) ! a)) =
           map (\<lambda>(c, d). ((collisionMesh CollisionMaterial ^^ d) (showCollider flag c), d))
             (colliderDepths 0 (root (objects s ! a)))"
  using assms
  by (simp add: applyCollisionVisibility_def updateCollisionVisibility_def modify_def
      colliderDepths_forEachCollider colliderDepths_traverse showCollider_def collisionMesh_def
      case_prod_unfold o_def)

lemma mounted_armRobot:
  "robot (mounted armRobot) = Some 0" "0 < length (objects (mounted armRobot))"
  by (simp_all add: mounted_def)

text \<open>
  C10. Every collision-visibility update of a mounted model, with the flag set or not,
  leaves every mesh at or beneath a collider node with ray-picking disabled, the shared
  collision material and no shadow casting; the outcomes for the two flag values differ
  in the visibility of the collider nodes only, and a later update with the flag unset
  undoes none of the three changes.
\<close>

theorem collision_update_styles_meshes:
  assumes "robot s = Some a" and "a < length (objects s)"
  shows "length (objs (root (objects (applyCollisionVisibility flag s) ! a))) =
           length (objs (root (objects s ! a))) \<and>
         (\<forall>i < length (objs (root (objects s ! a))).
           let c = objs (root (objects s ! a)) ! i;
               d = snd (colliderDepths 0 (root (objects s ! a)) ! i);
               shown = objs (root (objects (applyCollisionVisibility True s) ! a)) ! i;
               hidden = objs (root (objects (applyCollisionVisibility False s) ! a)) ! i;
               later = objs (root (objects
                         (applyCollisionVisibility False (applyCollisionVisibility flag s)) ! a)) ! i
           in (0 < d \<and> isMesh c \<longrightarrow>
                 collisionStyled shown \<and> collisionStyled hidden \<and> collisionStyled later) \<and>
              shown\<lparr>visible := visible hidden\<rparr> = hidden \<and>
              (\<not> isURDFCollider c \<longrightarrow> shown = hidden))"
proof (intro conjI allI impI)
  show "length (objs (root (objects (applyCollisionVisibility flag s) ! a))) =
      length (objs (root (objects s ! a)))"
    by (simp add: objs_applyCollisionVisibility [OF assms] length_objs_colliderDepths)
next
  fix i
  let ?D = "colliderDepths 0 (root (objects s ! a))"
  assume "i < length (objs (root (objects s ! a)))"
  then have i: "i < length ?D" by (simp add: length_objs_colliderDepths)
  obtain c d where cd: "?D ! i = (c, d)" by (cases "?D ! i")
  have c: "objs (root (objects s ! a)) ! i = c"
    using i cd length_colliderDepths [of 0 "root (objects s ! a)", symmetric] by simp
  have shown: "objs (root (objects (applyCollisionVisibility True s) ! a)) ! i =
      (collisionMesh CollisionMaterial ^^ d) (showCollider True c)"
    using i cd by (simp add: objs_applyCollisionVisibility [OF assms])
  have hidden: "objs (root (objects (applyCollisionVisibility False s) ! a)) ! i =
      (collisionMesh CollisionMaterial ^^ d) (showCollider False c)"
    using i cd by (simp add: objs_applyCollisionVisibility [OF assms])
  have r: "robot (applyCollisionVisibility flag s) = Some a"
    and l: "a < length (objects (applyCollisionVisibility flag s))"
    using assms by (simp_all add: applyCollisionVisibility_keeps)
  have later: "objs (root (objects
        (applyCollisionVisibility False (applyCollisionVisibility flag s)) ! a)) ! i =
      (collisionMesh CollisionMaterial ^^ d)
        (showCollider False ((collisionMesh CollisionMaterial ^^ d) (showCollider flag c)))"
    using i cd
    by (simp add: objs_applyCollisionVisibility [OF r l]
        colliderDepths_applyCollisionVisibility [OF assms])
  show "let c = objs (root (objects s ! a)) ! i;
            d = snd (?D ! i);
            shown = objs (root (objects (applyCollisionVisibility True s) ! a)) ! i;
            hidden = objs (root (objects (applyCollisionVisibility False s) ! a)) ! i;
            later = objs (root (objects
                      (applyCollisionVisibility False (applyCollisionVisibility flag s)) ! a)) ! i
        in (0 < d \<and> isMesh c \<longrightarrow>
              collisionStyled shown \<and> collisionStyled hidden \<and> collisionStyled later) \<and>
           shown\<lparr>visible := visible hidden\<rparr> = hidden \<and>
           (\<not> isURDFCollider c \<longrightarrow> shown = hidden)"
    unfolding Let_def c cd snd_conv shown hidden later
    by (simp add: funpow_collisionMesh collisionMesh_def showCollider_def collisionStyled_def)
qed

theorem collision_update_styles_meshes_witness:
  "robot (mounted armRobot) = Some 0 \<and>
   isMesh (objs (root (objects (mounted armRobot) ! 0)) ! 4) \<and>
   collisionStyled
     (objs (root (objects (applyCollisionVisibility True (mounted armRobot)) ! 0)) ! 4) \<and>
   collisionStyled
     (objs (root (objects (applyCollisionVisibility False (mounted armRobot)) ! 0)) ! 4) \<and>
   collisionStyled
     (objs (root (objects (applyCollisionVisibility False
                            (applyCollisionVisibility True (mounted armRobot))) ! 0)) ! 4)"
proof -
  have i: "4 < length (objs (root (objects (mounted armRobot) ! 0)))"
    and d: "snd (colliderDepths 0 (root (objects (mounted armRobot) ! 0)) ! 4) = 1"
    and c: "isMesh (objs (root (objects (mounted armRobot) ! 0)) ! 4)"
    by (simp_all add: mounted_def armRobot_def object3D_def)
  show ?thesis
    using collision_update_styles_meshes [OF mounted_armRobot, of True, THEN conjunct2,
        rule_format, OF i]
      d c mounted_armRobot(1)
    by (simp add: Let_def)
qed

text \<open>
  C4 (as amended). Each update, on any state, sets the visibility of every collider
  node to the flag and leaves the visibility of every other node alone. After showing
  and then hiding, every collider node is hidden; that is its visibility from before
  the first call exactly when it was hidden then.
\<close>

theorem collision_visibility_round_trip:
  assumes "robot s = Some a" and "a < length (objects s)"
  shows "length (objs (root (objects (applyCollisionVisibility flag s) ! a))) =
           length (objs (root (objects s ! a))) \<and>
         length (objs (root (objects
             (applyCollisionVisibility False (applyCollisionVisibility True s)) ! a))) =
           length (objs (root (objects s ! a))) \<and>
         (\<forall>i < length (objs (root (objects s ! a))).
           let c = objs (root (objects s ! a)) ! i;
               c1 = objs (root (objects (applyCollisionVisibility flag s) ! a)) ! i;
               c2 = objs (root (objects
                      (applyCollisionVisibility False (applyCollisionVisibility True s)) ! a)) ! i
           in (isURDFCollider c \<longrightarrow>
                 visible c1 = flag \<and> visible c2 = False \<and>
                 (visible c2 = visible c \<longleftrightarrow> \<not> visible c)) \<and>
              (\<not> isURDFCollider c \<longrightarrow> visible c1 = visible c \<and> visible c2 = visible c))"
proof (intro conjI allI impI)
  show "length (objs (root (objects (applyCollisionVisibility flag s) ! a))) =
      length (objs (root (objects s ! a)))"
    by (simp add: objs_applyCollisionVisibility [OF assms] length_objs_colliderDepths)
next
  have r: "robot (applyCollisionVisibility True s) = Some a"
    and l: "a < length (objects (applyCollisionVisibility True s))"
    using assms by (simp_all add: applyCollisionVisibility_keeps)
  show "length (objs (root (objects
             (applyCollisionVisibility False (applyCollisionVisibility True s)) ! a))) =
      length (objs (root (objects s ! a)))"
    by (simp add: objs_applyCollisionVisibility [OF r l]
        colliderDepths_applyCollisionVisibility [OF assms] length_objs_colliderDepths)
next
  fix i
  let ?D = "colliderDepths 0 (root (objects s ! a))"
  assume "i < length (objs (root (objects s ! a)))"
  then have i: "i < length ?D" by (simp add: length_objs_colliderDepths)
  obtain c d where cd: "?D ! i = (c, d)" by (cases "?D ! i")
  have c: "objs (root (objects s ! a)) ! i = c"
    using i cd length_colliderDepths [of 0 "root (objects s ! a)", symmetric] by simp
  have r: "robot (applyCollisionVisibility True s) = Some a"
    and l: "a < length (objects (applyCollisionVisibility True s))"
    using assms by (simp_all add: applyCollisionVisibility_keeps)
  have c1: "objs (root (objects (applyCollisionVisibility flag s) ! a)) ! i =
      (collisionMesh CollisionMaterial ^^ d) (showCollider flag c)"
    using i cd by (simp add: objs_applyCollisionVisibility [OF assms])
  have c2: "objs (root (objects
        (applyCollisionVisibility False (applyCollisionVisibility True s)) ! a)) ! i =
      (collisionMesh CollisionMaterial ^^ d)
        (showCollider False ((collisionMesh CollisionMaterial ^^ d) (showCollider True c)))"
    using i cd
    by (simp add: objs_applyCollisionVisibility [OF r l]
        colliderDepths_applyCollisionVisibility [OF assms])
  show "let c = objs (root (objects s ! a)) ! i;
            c1 = objs (root (objects (applyCollisionVisibility flag s) ! a)) ! i;
            c2 = objs (root (objects
                   (applyCollisionVisibility False (applyCollisionVisibility True s)) ! a)) ! i
        in (isURDFCollider c \<longrightarrow>
              visible c1 = flag \<and> visible c2 = False \<and>
              (visible c2 = visible c \<longleftrightarrow> \<not> visible c)) \<and>
           (\<not> isURDFCollider c \<longrightarrow> visible c1 = visible c \<and> visible c2 = visible c)"
    unfolding Let_def c c1 c2
    by (simp add: funpow_collisionMesh collisionMesh_def showCollider_def)
qed

lemma showing_armRobot:
  "robot showing = Some 0" "0 < length (objects showing)"
  by (simp_all add: showing_def applyCollisionVisibility_keeps mounted_def)

lemma objs_showing:
  "isURDFCollider (objs (root (objects showing ! 0)) ! 3)"
  "visible (objs (root (objects showing ! 0)) ! 3)"
  "3 < length (objs (root (objects showing ! 0)))"
  by (simp_all add: showing_def applyCollisionVisibility_def updateCollisionVisibility_def
      modify_def mounted_def armRobot_def object3D_def showCollider_def collisionMesh_def
      constructed_def)

theorem collision_visibility_round_trip_witness:
  "robot showing = Some 0 \<and>
   isURDFCollider (objs (root (objects showing ! 0)) ! 3) \<and>
   visible (objs (root (objects showing ! 0)) ! 3) \<and>
   \<not> visible (objs (root (objects (applyCollisionVisibility False showing) ! 0)) ! 3) \<and>
   \<not> visible (objs (root (objects (applyCollisionVisibility False
                  (applyCollisionVisibility True showing)) ! 0)) ! 3)"
  using collision_visibility_round_trip [OF showing_armRobot, of False, THEN conjunct2,
      THEN conjunct2, rule_format, OF objs_showing(3)]
    objs_showing showing_armRobot(1)
  by (simp add: Let_def)

theorem collision_visibility_round_trip_counterexample:
  "robot showing = Some 0 \<and>
   isURDFCollider (objs (root (objects showing ! 0)) ! 3) \<and>
   visible (objs (root (objects (applyCollisionVisibility False
              (applyCollisionVisibility True showing)) ! 0)) ! 3) \<noteq>
   visible (objs (root (objects showing ! 0)) ! 3)"
  by (simp add: showing_def applyCollisionVisibility_def updateCollisionVisibility_def modify_def
      mounted_def armRobot_def object3D_def showCollider_def collisionMesh_def constructed_def)

subsection \<open>Joints\<close>

lemma recenter_keeps:
  "robot (recenter s) = robot s" "objects (recenter s) = objects s"
  by (simp_all add: recenter_def redraw_def updateEnvironment_def Let_def split: option.splits)


lemma setIgnoreLimits_robot: "robot (setIgnoreLimits ignore nr s) = robot s"
  by (simp add: setIgnoreLimits_def modify_def recenter_keeps Let_def split: option.splits)

lemma setIgnoreLimits_length:
  "length (objects (setIgnoreLimits ignore nr s)) = length (objects s)"
  by (simp add: setIgnoreLimits_def modify_def recenter_keeps Let_def split: option.splits)




lemma setJointValue_inherited:
  "robot s = Some a \<Longrightarrow> joints (objects s ! a) n = None \<Longrightarrow>
     n \<in> set (inherited (objects s ! a)) \<Longrightarrow> setJointValue n vals s = Inl TypeError"
  by (simp add: setJointValue_def joints_get_def)

lemma setJointValue_elsewhere:
  "(robot s = None \<longrightarrow> setJointValue n vals s = Inr s) \<and>
   (\<forall>a. robot s = Some a \<and> joints (objects s ! a) n = None \<and>
        n \<notin> set (inherited (objects s ! a)) \<longrightarrow> setJointValue n vals s = Inr s) \<and>
   (\<forall>a p j. robot s = Some a \<and> joints (objects s ! a) n = Some p \<and>
        lookup p (root (objects s ! a)) = Some j \<longrightarrow>
      (\<exists>s'. setJointValue n vals s = Inr s' \<and>
         (snd (joint_setJointValue vals j) \<longrightarrow>
            dirty s' \<and> log s' = log s @ [Dispatch (AngleChange n)]) \<and>
         (\<not> snd (joint_setJointValue vals j) \<longrightarrow> dirty s' = dirty s \<and> log s' = log s)))"
  by (auto simp add: setJointValue_def joints_get_def redraw_def modify_def Let_def)

text \<open>
  C6 (the code at an inherited name). \<open>setJointValue\<close> should change nothing when the
  named joint does not exist. The robot below has the joints \<open>elbow\<close> and \<open>wrist\<close> and
  none called \<open>constructor\<close>; its table of joints is a plain object, so the read
  \<open>joints['constructor']\<close> finds the inherited constructor, the guard lets it pass,
  and the call raises a type error instead of returning.
\<close>

theorem setJointValue_inherited_name_raises:
  "robot (mounted armRobot) = Some 0 \<and>
   joints (objects (mounted armRobot) ! 0) (str ''constructor'') = None \<and>
   setJointValue (str ''constructor'') [1 / 2] (mounted armRobot) = Inl TypeError \<and>
   setJointValue (str ''knee'') [1 / 2] (mounted armRobot) = Inr (mounted armRobot)"
proof -
  have r: "robot (mounted armRobot) = Some 0"
    and n: "joints (objects (mounted armRobot) ! 0) (str ''constructor'') = None"
    and k: "joints (objects (mounted armRobot) ! 0) (str ''knee'') = None"
    and i: "str ''constructor'' \<in> set (inherited (objects (mounted armRobot) ! 0))"
    and o: "str ''knee'' \<notin> set (inherited (objects (mounted armRobot) ! 0))"
    by (simp_all add: mounted_def armRobot_def objectPrototype_def str_def)
  have "setJointValue (str ''knee'') [1 / 2] (mounted armRobot) = Inr (mounted armRobot)"
    using r k o by (simp add: setJointValue_def joints_get_def)
  with r n setJointValue_inherited [OF r n i] show ?thesis by simp
qed

subsection \<open>The render loop\<close>

lemma updateEnvironment_frame:
  "log (updateEnvironment s) = log s" "dirty (updateEnvironment s) = dirty s"
  "rendererSize (updateEnvironment s) = rendererSize s" "raf (updateEnvironment s) = raf s"
  "autoRedraw (updateEnvironment s) = autoRedraw s"
  "noAutoRecenter (updateEnvironment s) = noAutoRecenter s"
  "controlsMoved (updateEnvironment s) = (controlsMoved s \<or> targetMoves s)"
  "targetMoves (updateEnvironment s) = False"
  by (simp_all add: updateEnvironment_def targetMoves_def Let_def split: option.splits)

lemma recenter_frame:
  "log (recenter s) = log s @ [Recenter]" "dirty (recenter s) = True"
  "rendererSize (recenter s) = rendererSize s" "raf (recenter s) = raf s"
  "autoRedraw (recenter s) = autoRedraw s"
  "noAutoRecenter (recenter s) = noAutoRecenter s"
  "controlsMoved (recenter s) = (controlsMoved s \<or> targetMoves s)"
  by (simp_all add: recenter_def redraw_def updateEnvironment_frame)

lemma targetMoves_recenter: "targetMoves (recenter s) = False"
  by (simp add: recenter_def redraw_def updateEnvironment_def targetMoves_def Let_def
      split: option.splits)

lemma updateSize_frame:
  "rendererSize (updateSize s) = (clientWidth s, clientHeight s)"
  "log (updateSize s) =
     log s @ (if rendererSize s \<noteq> (clientWidth s, clientHeight s) then [Recenter] else [])"
  "dirty (updateSize s) = (dirty s \<or> rendererSize s \<noteq> (clientWidth s, clientHeight s))"
  "raf (updateSize s) = raf s"
  "autoRedraw (updateSize s) = autoRedraw s"
  "noAutoRecenter (updateSize s) = noAutoRecenter s"
  "controlsMoved (updateSize s) =
     (controlsMoved s \<or> rendererSize s \<noteq> (clientWidth s, clientHeight s) \<and> targetMoves s)"
  by (auto simp add: updateSize_def Let_def recenter_frame prod_eq_iff)

lemma targetMoves_updateSize:
  "targetMoves (updateSize s) =
     (rendererSize s = (clientWidth s, clientHeight s) \<and> targetMoves s)"
proof -
  have "targetMoves (x\<lparr>pixelRatio := p, rendererSize := r, aspect := q\<rparr>) = targetMoves x"
    for x p r q
    by (simp add: targetMoves_def split: option.splits)
  then show ?thesis
    by (auto simp add: updateSize_def Let_def targetMoves_recenter prod_eq_iff)
qed

lemma draw_frame:
  "log (draw s) = log s @ (if dirty s \<or> autoRedraw s then [Render] else [])"
  "dirty (draw s) = False"
  "rendererSize (draw s) = rendererSize s" "raf (draw s) = raf s"
  "controlsMoved (draw s) =
     (controlsMoved s \<or> (dirty s \<or> autoRedraw s) \<and> \<not> noAutoRecenter s \<and> targetMoves s)"
  by (auto simp add: draw_def Let_def updateEnvironment_frame)

lemma controls_update_frame:
  "log (controls_update s) = log s @ ControlsUpdate # (if controlsMoved s then [Recenter] else [])"
  "dirty (controls_update s) = (dirty s \<or> controlsMoved s)"
  "rendererSize (controls_update s) = rendererSize s" "raf (controls_update s) = raf s"
  by (simp_all add: controls_update_def Let_def recenter_frame)

text \<open>
  C8. One tick of the render loop on an attached element: the renderer takes the size
  of the container, with one \<open>recenter\<close> exactly when the size differs from the
  renderer's; a draw follows exactly when the dirty flag is then set or continuous
  redraw is configured; after the drawing step the dirty flag is clear; and the camera
  controller is updated in every case. When the framing of this tick has moved the
  controller's target, or the camera or the target had been moved before the tick, the
  controller reports a change, on which the element recenters once more and marks the
  scene dirty for the next tick.
\<close>

theorem renderLoop_tick:
  assumes "parentNode s"
  shows "let resized = (rendererSize s \<noteq> (clientWidth s, clientHeight s));
             s1 = updateSize s;
             s2 = draw s1;
             s3 = renderLoop s
         in rendererSize s1 = (clientWidth s, clientHeight s) \<and>
            log s1 = log s @ (if resized then [Recenter] else []) \<and>
            dirty s1 = (dirty s \<or> resized) \<and>
            log s2 = log s1 @ (if dirty s1 \<or> autoRedraw s then [Render] else []) \<and>
            dirty s2 = False \<and>
            controlsMoved s2 =
              (controlsMoved s \<or>
               (resized \<or> (dirty s \<or> autoRedraw s) \<and> \<not> noAutoRecenter s) \<and> targetMoves s) \<and>
            log s3 = log s2 @ ControlsUpdate # (if controlsMoved s2 then [Recenter] else []) \<and>
            dirty s3 = controlsMoved s2 \<and>
            rendererSize s3 = (clientWidth s, clientHeight s) \<and>
            raf s3 = raf s @ [RenderLoop]"
  using assms
  by (auto simp add: Let_def renderLoop_def updateSize_frame draw_frame controls_update_frame
      targetMoves_updateSize)

theorem renderLoop_tick_witness:
  "parentNode attachedBox \<and>
   rendererSize (renderLoop attachedBox) = (800, 600) \<and>
   log (renderLoop attachedBox) = [Recenter, Render, ControlsUpdate, Recenter] \<and>
   dirty (draw (updateSize attachedBox)) = False \<and>
   dirty (renderLoop attachedBox) = True \<and>
   parentNode attached \<and>
   log (renderLoop attached) = [Recenter, Render, ControlsUpdate] \<and>
   dirty (renderLoop attached) = False"
proof -
  have p: "parentNode attachedBox" and q: "parentNode attached"
    by (simp_all add: attachedBox_def attached_def mounted_def)
  have m: "targetMoves attachedBox" and n: "\<not> targetMoves attached"
    by (simp_all add: targetMoves_def attachedBox_def attached_def mounted_def constructed_def
        visualBox_boxRobot)
  have w1: "rendererSize (renderLoop attachedBox) = (800, 600) \<and>
      log (renderLoop attachedBox) = [Recenter, Render, ControlsUpdate, Recenter] \<and>
      dirty (draw (updateSize attachedBox)) = False \<and>
      dirty (renderLoop attachedBox) = True"
    using renderLoop_tick [OF p] m
    by (simp add: Let_def attachedBox_def mounted_def constructed_def)
  have w2: "log (renderLoop attached) = [Recenter, Render, ControlsUpdate] \<and>
      dirty (renderLoop attached) = False"
    using renderLoop_tick [OF q] n
    by (simp add: Let_def attached_def constructed_def)
  show ?thesis using p q w1 w2 by blast
qed

subsection \<open>Loading\<close>

lemmas eval_defs = setAttribute.simps attributeChangedCallback_def scheduleLoad_def
  updateCollisionVisibility_def recenter_def redraw_def updateEnvironment_def frame_def
  loadUrdf_def resolvePackages_def isPackageMap_def includes_chr_def renderLoop_def loadKey_def
  constructed_def Let_def str_def

lemma requested_a_eq:
  "requested_a = constructed\<lparr>dirty := True, prevload := Some (str ''|a.urdf''), attr_urdf := str ''a.urdf'',
      requestId := 1, raf := [RenderLoop],
      log := [Recenter, Dispatch UrdfChange],
      requests := [\<lparr>captured = 1, req_packages = Path [], req_urdf = str ''a.urdf'', local_robot = None\<rparr>]\<rparr>"
  by (simp add: requested_a_def eval_defs)

lemma scheduled_b_eq:
  "scheduled_b =
     requested_a\<lparr>attr_urdf := str ''b.urdf'', prevload := Some (str ''|b.urdf''), loadScheduled := True,
       raf := [RenderLoop, DeferredLoad],
       log := [Recenter, Dispatch UrdfChange, Recenter]\<rparr>"
  by (simp add: scheduled_b_def requested_a_eq eval_defs)

lemma requested_b_eq:
  "requested_b = constructed\<lparr>dirty := True, prevload := Some (str ''|b.urdf''), attr_urdf := str ''b.urdf'',
      requestId := 2, raf := [RenderLoop],
      log := [Recenter, Dispatch UrdfChange, Recenter, Dispatch UrdfChange],
      requests := [\<lparr>captured = 1, req_packages = Path [], req_urdf = str ''a.urdf'', local_robot = None\<rparr>,
                   \<lparr>captured = 2, req_packages = Path [], req_urdf = str ''b.urdf'', local_robot = None\<rparr>]\<rparr>"
  by (simp add: requested_b_def scheduled_b_eq requested_a_eq eval_defs)

lemma updateMaterials_jointRobot: "updateMaterials (root jointRobot) = (root jointRobot, False)"
  by (simp add: jointRobot_def object3D_def)

lemma updateCollisionVisibility_keeps:
  "robot (updateCollisionVisibility s) = robot s" "world (updateCollisionVisibility s) = world s"
  "length (objects (updateCollisionVisibility s)) = length (objects s)"
  "requestId (updateCollisionVisibility s) = requestId s"
  "requests (updateCollisionVisibility s) = requests s"
  "loadScheduled (updateCollisionVisibility s) = loadScheduled s"
  "prevload (updateCollisionVisibility s) = prevload s"
  "raf (updateCollisionVisibility s) = raf s"
  "attr_package (updateCollisionVisibility s) = attr_package s"
  "attr_urdf (updateCollisionVisibility s) = attr_urdf s"
  by (simp_all add: updateCollisionVisibility_def modify_def split: option.splits)

lemma recenter_keeps_load:
  "world (recenter s) = world s" "requestId (recenter s) = requestId s"
  "requests (recenter s) = requests s" "loadScheduled (recenter s) = loadScheduled s"
  "prevload (recenter s) = prevload s" "attr_package (recenter s) = attr_package s"
  "attr_urdf (recenter s) = attr_urdf s"
  by (simp_all add: recenter_def redraw_def updateEnvironment_def Let_def split: option.splits)

lemma setIgnoreLimits_keeps:
  "world (setIgnoreLimits ignore nr s) = world s"
  "requestId (setIgnoreLimits ignore nr s) = requestId s"
  "requests (setIgnoreLimits ignore nr s) = requests s"
  "loadScheduled (setIgnoreLimits ignore nr s) = loadScheduled s"
  "prevload (setIgnoreLimits ignore nr s) = prevload s"
  by (simp_all add: setIgnoreLimits_def modify_def recenter_keeps_load Let_def
      split: option.splits)

lemma finishMount_keeps:
  "robot (finishMount s) = robot s" "world (finishMount s) = world s"
  "requestId (finishMount s) = requestId s" "requests (finishMount s) = requests s"
  "loadScheduled (finishMount s) = loadScheduled s" "prevload (finishMount s) = prevload s"
  "length (objects (finishMount s)) = length (objects s)"
  by (simp_all add: finishMount_def Let_def recenter_keeps recenter_keeps_load
      updateCollisionVisibility_keeps setIgnoreLimits_keeps setIgnoreLimits_robot
      setIgnoreLimits_length)

lemma loadCallback_mounts:
  assumes "k < length (requests s)" and "\<not> snd (updateMaterials (root m))"
  shows "robot (loadCallback k m s) = Some (length (objects s))"
    and "world (loadCallback k m s) = removeAll (length (objects s)) (world s) @ [length (objects s)]"
    and "requestId (loadCallback k m s) = requestId s"
    and "length (objects (loadCallback k m s)) = Suc (length (objects s))"
    and "length (requests (loadCallback k m s)) = length (requests s)"
    and "loadScheduled (loadCallback k m s) = loadScheduled s"
    and "prevload (loadCallback k m s) = prevload s"
  using assms
  by (simp_all add: loadCallback_def Let_def finishMount_keeps world_add_def modify_def)

lemma loadCallback_captured:
  "captured (requests (loadCallback k m s) ! i) = captured (requests s ! i)"
  by (cases "i = k")
    (simp_all add: loadCallback_def Let_def finishMount_keeps world_add_def modify_def)

text \<open>
  C1 (the code at a stale completion). Only the model of the most recently requested
  load should ever be mounted. The callback given to \<open>loader.load\<close> mounts the model
  it receives without comparing the captured sequence id with the counter: two loads
  are requested one frame apart, the import of the first completes after the counter
  has moved on to 2, and its model is mounted all the same. When the second import
  completes as well, both models hang under the world node.
\<close>

theorem stale_load_callback_mounts:
  "requestId requested_b = 2 \<and>
   captured (requests requested_b ! 0) = 1 \<and>
   robot requested_b = None \<and> world requested_b = [] \<and>
   robot (loadCallback 0 jointRobot requested_b) = Some 0 \<and>
   world (loadCallback 0 jointRobot requested_b) = [0] \<and>
   world (loadCallback 1 jointRobot (loadCallback 0 jointRobot requested_b)) = [0, 1]"
proof -
  have b: "requestId requested_b = 2" "captured (requests requested_b ! 0) = 1"
    "robot requested_b = None" "world requested_b = []" "length (requests requested_b) = 2"
    "objects requested_b = []"
    by (simp_all add: requested_b_eq constructed_def)
  have m: "\<not> snd (updateMaterials (root jointRobot))"
    by (simp add: updateMaterials_jointRobot)
  show ?thesis
    using b by (simp add: loadCallback_mounts m)
qed

text \<open>
  The other completion callback, \<open>manager.onLoad\<close>, does compare: for a pending import
  whose captured sequence id differs from the counter it mounts nothing.
\<close>

theorem managerOnLoad_stale:
  "k < length (requests s) \<Longrightarrow> requestId s \<noteq> captured (requests s ! k) \<Longrightarrow>
     robot (managerOnLoad k s) = robot s \<and> world (managerOnLoad k s) = world s"
  by (simp add: managerOnLoad_def modify_def split: option.splits)

theorem managerOnLoad_stale_witness:
  "0 < length (requests requested_b) \<and>
   requestId requested_b \<noteq> captured (requests requested_b ! 0) \<and>
   robot (managerOnLoad 0 requested_b) = None \<and> world (managerOnLoad 0 requested_b) = []"
proof -
  have b: "0 < length (requests requested_b)"
    "requestId requested_b \<noteq> captured (requests requested_b ! 0)"
    "robot requested_b = None" "world requested_b = []"
    by (simp_all add: requested_b_eq constructed_def)
  show ?thesis
    using managerOnLoad_stale [OF b(1,2)] b by simp
qed

lemma scheduleLoad_unchanged: "prevload s = Some (loadKey s) \<Longrightarrow> scheduleLoad s = s"
  by (simp add: scheduleLoad_def)

lemma scheduleLoad_pending:
  "prevload s \<noteq> Some (loadKey s) \<Longrightarrow> loadScheduled s \<Longrightarrow>
     scheduleLoad s = s\<lparr>prevload := Some (loadKey s)\<rparr>"
  by (simp add: scheduleLoad_def)

lemma scheduleLoad_fresh:
  assumes "prevload s \<noteq> Some (loadKey s)" and "\<not> loadScheduled s"
  shows "robot (scheduleLoad s) = None"
    and "raf (scheduleLoad s) = raf s @ [DeferredLoad]"
    and "loadScheduled (scheduleLoad s)"
    and "prevload (scheduleLoad s) = Some (loadKey s)"
    and "robot s = Some a \<Longrightarrow> a \<notin> set (world (scheduleLoad s))"
    and "robot s = Some a \<Longrightarrow> a < length (objects s) \<Longrightarrow>
           root (objects (scheduleLoad s) ! a) = traverse dispose (root (objects s ! a))"
  using assms
  by (simp_all add: scheduleLoad_def Let_def modify_def split: option.splits)

lemma scheduleLoad_keeps:
  "requests (scheduleLoad s) = requests s" "requestId (scheduleLoad s) = requestId s"
  "attr_package (scheduleLoad s) = attr_package s" "attr_urdf (scheduleLoad s) = attr_urdf s"
  by (simp_all add: scheduleLoad_def Let_def modify_def split: option.splits)

lemma scheduleLoad_raf:
  "raf (scheduleLoad s) =
     raf s @ (if \<not> loadScheduled s \<and> loadScheduled (scheduleLoad s) then [DeferredLoad] else [])"
  "loadScheduled s \<Longrightarrow> loadScheduled (scheduleLoad s)"
  by (simp_all add: scheduleLoad_def Let_def modify_def split: option.splits)

lemma attributeChangedCallback_load:
  assumes "attr = Package \<or> attr = Urdf"
  shows "requests (attributeChangedCallback attr s) = requests s"
    and "requestId (attributeChangedCallback attr s) = requestId s"
    and "attr_package (attributeChangedCallback attr s) = attr_package s"
    and "attr_urdf (attributeChangedCallback attr s) = attr_urdf s"
    and "loadScheduled (attributeChangedCallback attr s) = loadScheduled (scheduleLoad s)"
    and "raf (attributeChangedCallback attr s) = raf (scheduleLoad s)"
  using assms
  by (auto simp add: attributeChangedCallback_def Let_def recenter_keeps_load recenter_frame
      updateCollisionVisibility_keeps scheduleLoad_keeps)

lemma setAttribute_load:
  "requests (setAttribute c s) = requests s"
  "requestId (setAttribute c s) = requestId s"
  "loadScheduled s \<Longrightarrow> loadScheduled (setAttribute c s)"
  "raf (setAttribute c s) =
     raf s @ (if \<not> loadScheduled s \<and> loadScheduled (setAttribute c s) then [DeferredLoad] else [])"
  by (cases c; simp add: attributeChangedCallback_load scheduleLoad_raf)+

lemma setAttributes_load:
  "requests (setAttributes cs s) = requests s"
  "requestId (setAttributes cs s) = requestId s"
  "loadScheduled s \<Longrightarrow> loadScheduled (setAttributes cs s)"
  by (induction cs arbitrary: s; simp add: setAttribute_load)+

lemma setAttributes_raf:
  "raf (setAttributes cs s) =
     raf s @ (if \<not> loadScheduled s \<and> loadScheduled (setAttributes cs s) then [DeferredLoad] else [])"
proof (induction cs arbitrary: s)
  case Nil
  show ?case by simp
next
  case (Cons c cs)
  show ?case
    using Cons [of "setAttribute c s"] setAttribute_load(4) [of c s]
      setAttributes_load(3) [of "setAttribute c s" cs] setAttribute_load(3) [of s c]
    by auto
qed

lemma updateEnvironment_keeps_load:
  "requests (updateEnvironment s) = requests s" "requestId (updateEnvironment s) = requestId s"
  "attr_package (updateEnvironment s) = attr_package s"
  "attr_urdf (updateEnvironment s) = attr_urdf s"
  by (simp_all add: updateEnvironment_def Let_def split: option.splits)

lemma renderLoop_keeps_load:
  "requests (renderLoop s) = requests s" "requestId (renderLoop s) = requestId s"
  "attr_package (renderLoop s) = attr_package s" "attr_urdf (renderLoop s) = attr_urdf s"
  by (simp_all add: renderLoop_def controls_update_def draw_def updateSize_def Let_def
      recenter_keeps_load updateEnvironment_keeps_load)

lemma run_RenderLoops:
  "DeferredLoad \<notin> set cbs \<Longrightarrow>
     requests (foldl run_callback s cbs) = requests s \<and>
     requestId (foldl run_callback s cbs) = requestId s \<and>
     attr_package (foldl run_callback s cbs) = attr_package s \<and>
     attr_urdf (foldl run_callback s cbs) = attr_urdf s"
proof (induction cbs arbitrary: s)
  case Nil
  show ?case by simp
next
  case (Cons cb cbs)
  then have cb: "cb = RenderLoop" by (cases cb) auto
  show ?case
    using Cons.IH [of "renderLoop s"] Cons.prems by (simp add: cb renderLoop_keeps_load)
qed

lemma frame_without_load:
  "DeferredLoad \<notin> set (raf s) \<Longrightarrow> requests (frame s) = requests s"
  using run_RenderLoops [of "raf s" "s\<lparr>raf := []\<rparr>"] by (simp add: frame_def)

lemma frame_with_load:
  assumes "raf s = cbs @ [DeferredLoad]" and "DeferredLoad \<notin> set cbs"
  shows "requests (frame s) =
           requests s @
             (if attr_urdf s \<noteq> []
              then (case resolvePackages (attr_package s) of
                      Inl e \<Rightarrow> []
                    | Inr p \<Rightarrow> [\<lparr>captured = Suc (requestId s), req_packages = p,
                                req_urdf = attr_urdf s, local_robot = None\<rparr>])
              else [])"
  using run_RenderLoops [OF assms(2), of "s\<lparr>raf := []\<rparr>"] assms(1)
  by (simp add: frame_def loadUrdf_def Let_def split: sum.splits)

text \<open>
  C2 (as amended). \<open>_scheduleLoad\<close> changes nothing when package and locator are
  those of the last scheduled load. When their key differs from the recorded one and no
  load is scheduled yet, it unmounts and disposes the mounted model at once and requests
  one deferred load for the next frame. When the key differs and a load is already
  scheduled, it records the new key and requests no further load. Any sequence of
  attribute changes between two frames therefore requests at most one deferred load,
  and the next frame starts exactly one import, for the latest package and locator,
  provided a load was scheduled, the locator is not empty and the package specification
  parses.
\<close>

theorem scheduleLoad_coalesces:
  "(prevload s = Some (loadKey s0) \<and> attr_package s = attr_package s0 \<and>
      attr_urdf s = attr_urdf s0 \<longrightarrow> scheduleLoad s = s) \<and>
   (prevload s \<noteq> Some (loadKey s) \<and> \<not> loadScheduled s \<longrightarrow>
      robot (scheduleLoad s) = None \<and>
      (\<forall>a. robot s = Some a \<longrightarrow>
           a \<notin> set (world (scheduleLoad s)) \<and>
           (a < length (objects s) \<longrightarrow>
              root (objects (scheduleLoad s) ! a) = traverse dispose (root (objects s ! a)))) \<and>
      loadScheduled (scheduleLoad s) \<and>
      prevload (scheduleLoad s) = Some (loadKey s) \<and>
      raf (scheduleLoad s) = raf s @ [DeferredLoad]) \<and>
   (prevload s \<noteq> Some (loadKey s) \<and> loadScheduled s \<longrightarrow>
      raf (scheduleLoad s) = raf s \<and> loadScheduled (scheduleLoad s) \<and>
      prevload (scheduleLoad s) = Some (loadKey s)) \<and>
   (\<not> loadScheduled s \<and> DeferredLoad \<notin> set (raf s) \<longrightarrow>
      (let s' = setAttributes cs s
       in raf s' = raf s @ (if loadScheduled s' then [DeferredLoad] else []) \<and>
          requests s' = requests s \<and>
          requests (frame s') =
            requests s @
              (if loadScheduled s' \<and> attr_urdf s' \<noteq> []
               then (case resolvePackages (attr_package s') of
                       Inl e \<Rightarrow> []
                     | Inr p \<Rightarrow> [\<lparr>captured = Suc (requestId s), req_packages = p,
                                 req_urdf = attr_urdf s', local_robot = None\<rparr>])
               else [])))"
proof (intro conjI impI)
  assume "prevload s = Some (loadKey s0) \<and> attr_package s = attr_package s0 \<and>
      attr_urdf s = attr_urdf s0"
  then have "prevload s = Some (loadKey s)" by (simp add: loadKey_def)
  then show "scheduleLoad s = s" by (rule scheduleLoad_unchanged)
next
  assume h: "prevload s \<noteq> Some (loadKey s) \<and> \<not> loadScheduled s"
  then have k: "prevload s \<noteq> Some (loadKey s)" and n: "\<not> loadScheduled s" by simp_all
  show "robot (scheduleLoad s) = None" by (rule scheduleLoad_fresh(1) [OF k n])
  show "loadScheduled (scheduleLoad s)" by (rule scheduleLoad_fresh(3) [OF k n])
  show "prevload (scheduleLoad s) = Some (loadKey s)" by (rule scheduleLoad_fresh(4) [OF k n])
  show "raf (scheduleLoad s) = raf s @ [DeferredLoad]" by (rule scheduleLoad_fresh(2) [OF k n])
  show "\<forall>a. robot s = Some a \<longrightarrow>
           a \<notin> set (world (scheduleLoad s)) \<and>
           (a < length (objects s) \<longrightarrow>
              root (objects (scheduleLoad s) ! a) = traverse dispose (root (objects s ! a)))"
    using scheduleLoad_fresh(5,6) [OF k n] by blast
next
  assume h: "prevload s \<noteq> Some (loadKey s) \<and> loadScheduled s"
  then have e: "scheduleLoad s = s\<lparr>prevload := Some (loadKey s)\<rparr>"
    by (simp add: scheduleLoad_pending)
  show "raf (scheduleLoad s) = raf s" by (simp add: e)
  show "loadScheduled (scheduleLoad s)" using h by (simp add: e)
  show "prevload (scheduleLoad s) = Some (loadKey s)" by (simp add: e)
next
  assume h: "\<not> loadScheduled s \<and> DeferredLoad \<notin> set (raf s)"
  let ?s' = "setAttributes cs s"
  have r: "raf ?s' = raf s @ (if loadScheduled ?s' then [DeferredLoad] else [])"
    using h setAttributes_raf [of cs s] by simp
  have q: "requests ?s' = requests s" and i: "requestId ?s' = requestId s"
    by (simp_all add: setAttributes_load)
  have f: "requests (frame ?s') =
            requests s @
              (if loadScheduled ?s' \<and> attr_urdf ?s' \<noteq> []
               then (case resolvePackages (attr_package ?s') of
                       Inl e \<Rightarrow> []
                     | Inr p \<Rightarrow> [\<lparr>captured = Suc (requestId s), req_packages = p,
                                 req_urdf = attr_urdf ?s', local_robot = None\<rparr>])
               else [])"
  proof (cases "loadScheduled ?s'")
    case True
    then have "raf ?s' = raf s @ [DeferredLoad]" using r by simp
    from frame_with_load [OF this] h True q i show ?thesis by (simp split: sum.splits)
  next
    case False
    then have "DeferredLoad \<notin> set (raf ?s')" using r h by simp
    from frame_without_load [OF this] False q show ?thesis by simp
  qed
  show "let s' = setAttributes cs s
       in raf s' = raf s @ (if loadScheduled s' then [DeferredLoad] else []) \<and>
          requests s' = requests s \<and>
          requests (frame s') =
            requests s @
              (if loadScheduled s' \<and> attr_urdf s' \<noteq> []
               then (case resolvePackages (attr_package s') of
                       Inl e \<Rightarrow> []
                     | Inr p \<Rightarrow> [\<lparr>captured = Suc (requestId s), req_packages = p,
                                 req_urdf = attr_urdf s', local_robot = None\<rparr>])
               else [])"
    unfolding Let_def using r q f by simp
qed

lemma burst_facts:
  "loadScheduled burst" "attr_urdf burst = str ''b.urdf''" "attr_package burst = str ''pkg''"
proof -
  have "loadScheduled (setAttribute (SetPackage (str ''pkg'')) constructed)"
    by (simp add: attributeChangedCallback_load scheduleLoad_def loadKey_def constructed_def)
  then have "loadScheduled
      (setAttributes [SetUrdf (str ''a.urdf''), SetUrdf (str ''b.urdf'')]
        (setAttribute (SetPackage (str ''pkg'')) constructed))"
    by (rule setAttributes_load(3))
  then show "loadScheduled burst" by (simp add: burst_def)
  show "attr_urdf burst = str ''b.urdf''" "attr_package burst = str ''pkg''"
    by (simp_all add: burst_def attributeChangedCallback_load)
qed

theorem scheduleLoad_coalesces_witness:
  "\<not> loadScheduled constructed \<and> DeferredLoad \<notin> set (raf constructed) \<and>
   raf burst = [RenderLoop, DeferredLoad] \<and>
   requests (frame burst) =
     [\<lparr>captured = 1, req_packages = Path (str ''pkg''), req_urdf = str ''b.urdf'', local_robot = None\<rparr>] \<and>
   prevload requested_a = Some (loadKey requested_a) \<and>
   scheduleLoad requested_a = requested_a \<and>
   prevload (mounted armRobot) \<noteq> Some (loadKey (mounted armRobot)) \<and>
   \<not> loadScheduled (mounted armRobot) \<and>
   robot (mounted armRobot) = Some 0 \<and>
   robot (scheduleLoad (mounted armRobot)) = None \<and>
   0 \<notin> set (world (scheduleLoad (mounted armRobot))) \<and>
   raf (scheduleLoad (mounted armRobot)) = [RenderLoop, DeferredLoad] \<and>
   loadScheduled scheduled_b \<and>
   prevload (scheduled_b\<lparr>attr_urdf := str ''c.urdf''\<rparr>) \<noteq>
     Some (loadKey (scheduled_b\<lparr>attr_urdf := str ''c.urdf''\<rparr>)) \<and>
   raf (scheduleLoad (scheduled_b\<lparr>attr_urdf := str ''c.urdf''\<rparr>)) = [RenderLoop, DeferredLoad] \<and>
   prevload (scheduleLoad (scheduled_b\<lparr>attr_urdf := str ''c.urdf''\<rparr>)) = Some (str ''|c.urdf'')"
proof -
  have c: "\<not> loadScheduled constructed" "DeferredLoad \<notin> set (raf constructed)"
    "raf constructed = [RenderLoop]" "requests constructed = []" "requestId constructed = 0"
    by (simp_all add: constructed_def)
  have p: "resolvePackages (str ''pkg'') = Inr (Path (str ''pkg''))"
    by (simp add: resolvePackages_def isPackageMap_def includes_chr_def str_def)
  have u: "str ''b.urdf'' \<noteq> []"
    by (simp add: str_def)
  have a: "prevload requested_a = Some (loadKey requested_a)"
    by (simp add: requested_a_eq loadKey_def constructed_def str_def)
  have m: "prevload (mounted armRobot) \<noteq> Some (loadKey (mounted armRobot))"
    "\<not> loadScheduled (mounted armRobot)" "robot (mounted armRobot) = Some 0"
    "raf (mounted armRobot) = [RenderLoop]"
    by (simp_all add: mounted_def constructed_def str_def)
  have b: "loadScheduled (scheduled_b\<lparr>attr_urdf := str ''c.urdf''\<rparr>)"
    "prevload (scheduled_b\<lparr>attr_urdf := str ''c.urdf''\<rparr>) \<noteq>
       Some (loadKey (scheduled_b\<lparr>attr_urdf := str ''c.urdf''\<rparr>))"
    "loadKey (scheduled_b\<lparr>attr_urdf := str ''c.urdf''\<rparr>) = str ''|c.urdf''"
    "raf (scheduled_b\<lparr>attr_urdf := str ''c.urdf''\<rparr>) = [RenderLoop, DeferredLoad]"
    by (simp_all add: scheduled_b_eq requested_a_eq loadKey_def constructed_def str_def)
  have w1: "raf burst = [RenderLoop, DeferredLoad] \<and>
      requests (frame burst) =
        [\<lparr>captured = 1, req_packages = Path (str ''pkg''), req_urdf = str ''b.urdf'', local_robot = None\<rparr>]"
    using scheduleLoad_coalesces [of constructed constructed
        "[SetPackage (str ''pkg''), SetUrdf (str ''a.urdf''), SetUrdf (str ''b.urdf'')]", folded burst_def,
        THEN conjunct2, THEN conjunct2, THEN conjunct2]
      c p burst_facts u
    by (simp add: Let_def)
  have w2: "scheduleLoad requested_a = requested_a"
    using scheduleLoad_coalesces [of requested_a requested_a "[]", THEN conjunct1] a by simp
  have w3: "robot (scheduleLoad (mounted armRobot)) = None \<and>
      0 \<notin> set (world (scheduleLoad (mounted armRobot))) \<and>
      raf (scheduleLoad (mounted armRobot)) = [RenderLoop, DeferredLoad]"
    using scheduleLoad_coalesces [of "mounted armRobot" constructed "[]",
        THEN conjunct2, THEN conjunct1] m
    by simp
  have w4: "raf (scheduleLoad (scheduled_b\<lparr>attr_urdf := str ''c.urdf''\<rparr>)) =
        [RenderLoop, DeferredLoad] \<and>
      prevload (scheduleLoad (scheduled_b\<lparr>attr_urdf := str ''c.urdf''\<rparr>)) = Some (str ''|c.urdf'')"
    using scheduleLoad_coalesces [of "scheduled_b\<lparr>attr_urdf := str ''c.urdf''\<rparr>" constructed "[]",
        THEN conjunct2, THEN conjunct2, THEN conjunct1] b
    by simp
  have l: "loadScheduled scheduled_b" using b(1) by simp
  show ?thesis
    using w1 w2 w3 w4 c(1,2) a m(1,2,3) l b(2) by blast
qed

theorem scheduleLoad_keeps_model_counterexample:
  "loadScheduled pending_b \<and> robot pending_b = Some 0 \<and> world pending_b = [0] \<and>
   requestId pending_b = captured (requests pending_b ! 0) \<and>
   prevload pending_b \<noteq> Some (loadKey (pending_b\<lparr>attr_urdf := str ''c.urdf''\<rparr>)) \<and>
   robot (scheduleLoad (pending_b\<lparr>attr_urdf := str ''c.urdf''\<rparr>)) = Some 0 \<and>
   world (scheduleLoad (pending_b\<lparr>attr_urdf := str ''c.urdf''\<rparr>)) = [0]"
proof -
  let ?s = "scheduled_b"
  have s: "length (requests ?s) = 1" "objects ?s = []" "world ?s = []" "loadScheduled ?s"
    "prevload ?s = Some (str ''|b.urdf'')" "requestId ?s = 1" "captured (requests ?s ! 0) = 1"
    unfolding scheduled_b_eq by (simp_all add: requested_a_eq constructed_def)
  have m: "\<not> snd (updateMaterials (root jointRobot))"
    by (simp add: updateMaterials_jointRobot)
  have k: "0 < length (requests ?s)" using s by simp
  have p: "loadScheduled pending_b" "robot pending_b = Some 0" "world pending_b = [0]"
    "requestId pending_b = 1" "captured (requests pending_b ! 0) = 1"
    "prevload pending_b = Some (str ''|b.urdf'')"
    unfolding pending_b_def
    using s by (simp_all add: loadCallback_mounts [OF k m] loadCallback_captured)
  show ?thesis
    using p by (simp add: scheduleLoad_def loadKey_def Let_def str_def append_eq_Cons_conv)
qed

end
